theory Spec2Isabelle
  imports Complex_Main
begin

section \<open>JavaScript values\<close>

text \<open>
  A JavaScript number is a double: a finite one, written here by the real number it
  denotes, an infinity or \<open>NaN\<close>. The sign of zero is not kept. Nothing is assumed about
  which reals are doubles; the arithmetic that rounds is a parameter of the model (see
  \<open>engine\<close> below).
\<close>

datatype number = Finite real | PosInfinity | NegInfinity | NaN

text \<open>
  The dashboard is duck-typed JavaScript working on decoded JSON. A value is one of the
  JSON shapes, or \<open>undefined\<close> (what reading a missing property gives). An object is an
  association list; the first binding of a key is the one a property read sees.
  \<open>JNum r\<close> is the finite number \<open>r\<close>.
\<close>

datatype jsval =
    JUndefined
  | JNull
  | JBool bool
  | JNumber number
  | JStr string
  | JArr "jsval list"
  | JObj "(string \<times> jsval) list"

abbreviation JNum :: "real \<Rightarrow> jsval" where
  "JNum r \<equiv> JNumber (Finite r)"

text \<open>Truthiness, as tested by \<open>if (v)\<close>, \<open>!v\<close>, \<open>a && b\<close> and \<open>a || b\<close>.\<close>

fun truthy :: "jsval \<Rightarrow> bool" where
  "truthy JUndefined = False"
| "truthy JNull = False"
| "truthy (JBool b) = b"
| "truthy (JNumber n) = (n \<noteq> Finite 0 \<and> n \<noteq> NaN)"
| "truthy (JStr s) = (s \<noteq> [])"
| "truthy (JArr xs) = True"
| "truthy (JObj kvs) = True"

text \<open>
  \<open>get v k\<close> is the property read \<open>v.k\<close> for the JSON field names used here, on a value
  that is neither \<open>null\<close> nor \<open>undefined\<close> (on those JavaScript throws a TypeError; every
  use below is either guarded by a truthiness test, as in the source, or raises).
  Primitives and arrays have none of these properties.
\<close>

fun get :: "jsval \<Rightarrow> string \<Rightarrow> jsval" where
  "get (JObj kvs) k = (case map_of kvs k of Some v \<Rightarrow> v | None \<Rightarrow> JUndefined)"
| "get v k = JUndefined"

text \<open>\<open>a || b\<close>\<close>

definition or_else :: "jsval \<Rightarrow> jsval \<Rightarrow> jsval" where
  "or_else a b = (if truthy a then a else b)"

fun isArray :: "jsval \<Rightarrow> bool" where
  "isArray (JArr xs) = True"
| "isArray v = False"

fun elements :: "jsval \<Rightarrow> jsval list" where
  "elements (JArr xs) = xs"
| "elements v = []"

text \<open>\<open>typeof v === 'number'\<close>, \<open>typeof v === 'string'\<close>, \<open>typeof v === 'object'\<close>\<close>

fun is_number :: "jsval \<Rightarrow> bool" where
  "is_number (JNumber n) = True"
| "is_number v = False"

fun is_string :: "jsval \<Rightarrow> bool" where
  "is_string (JStr s) = True"
| "is_string v = False"

fun typeof_object :: "jsval \<Rightarrow> bool" where
  "typeof_object JNull = True"
| "typeof_object (JArr xs) = True"
| "typeof_object (JObj kvs) = True"
| "typeof_object v = False"

section \<open>Errors\<close>

text \<open>
  Every \<open>throw\<close> and every rejected promise of the modelled code is a value of
  \<open>error\<close>, named after the place that raises it.
\<close>

datatype error =
    NetworkError string              \<comment> \<open>\<open>fetch(...)\<close> rejected, with this message\<close>
  | HttpError nat                    \<comment> \<open>\<open>new Error(`HTTP error! status: ${response.status}`)\<close>\<close>
  | JsonParseError string            \<comment> \<open>\<open>response.json()\<close> rejected\<close>
  | InvalidApiResponseFormat         \<comment> \<open>\<open>new Error('Invalid API response format')\<close>\<close>
  | ApiError jsval                   \<comment> \<open>\<open>new Error(response.error)\<close>\<close>
  | InvalidRiskDataFormat            \<comment> \<open>\<open>new Error('Invalid risk data format received')\<close>\<close>
  | InvalidResponseFormat            \<comment> \<open>\<open>new Error('Invalid response format from API')\<close>\<close>
  | InvalidRange string              \<comment> \<open>the four errors of \<open>validateDateRangeParams\<close>\<close>
  | TypeError                        \<comment> \<open>a property read on \<open>null\<close> or \<open>undefined\<close>, or an
                                         object that cannot be converted to a primitive\<close>

text \<open>
  What the store's \<open>error\<close> field holds: a string literal of the source, or the
  \<open>message\<close> of a caught error.
\<close>

datatype message = Literal string | MessageOf error

section \<open>The store (stores/riskStore)\<close>

text \<open>\<open>lastUpdated\<close> holds \<open>null\<close> or a \<open>Date\<close>, here the clock reading in milliseconds.\<close>

record store =
  riskHistory :: jsval
  summaryData :: jsval
  currentMetrics :: jsval
  systemicData :: jsval
  isLoading :: bool
  error :: "message option"
  lastUpdated :: "nat option"

definition initial_store :: store where
  "initial_store =
     \<lparr>riskHistory = JArr [], summaryData = JNull, currentMetrics = JObj [],
      systemicData = JNull, isLoading = False, error = None, lastUpdated = None\<rparr>"

text \<open>\<open>now\<close> is what \<open>new Date()\<close> reads.\<close>

definition setRiskData :: "nat \<Rightarrow> jsval \<Rightarrow> store \<Rightarrow> store" where
  "setRiskData now d s =
     (if truthy d \<and> truthy (get d ''data'') \<and> isArray (get d ''data'') then
        s\<lparr>riskHistory := get d ''data'',
          summaryData := or_else (get d ''summary'') JNull,
          currentMetrics := or_else (get d ''current_metrics'') (JObj []),
          lastUpdated := Some now,
          error := None\<rparr>
      else if isArray d then
        s\<lparr>riskHistory := d,
          summaryData := JNull,
          currentMetrics := JObj [],
          lastUpdated := Some now,
          error := None\<rparr>
      else
        s\<lparr>riskHistory := JArr [], summaryData := JNull, currentMetrics := JObj [],
          error := Some (Literal ''Invalid data format'')\<rparr>)"

definition setRealtimeData :: "nat \<Rightarrow> jsval \<Rightarrow> store \<Rightarrow> store" where
  "setRealtimeData now realtimeData s =
     s\<lparr>currentMetrics := realtimeData, lastUpdated := Some now\<rparr>"

definition setSummaryData :: "jsval \<Rightarrow> store \<Rightarrow> store" where
  "setSummaryData v s = s\<lparr>summaryData := v\<rparr>"


definition setLoading :: "bool \<Rightarrow> store \<Rightarrow> store" where
  "setLoading loading s = s\<lparr>isLoading := loading\<rparr>"

definition setError :: "message option \<Rightarrow> store \<Rightarrow> store" where
  "setError e s = s\<lparr>error := e\<rparr>"

definition reset :: "store \<Rightarrow> store" where
  "reset s =
     s\<lparr>riskHistory := JArr [], summaryData := JNull, currentMetrics := JObj [],
       isLoading := False, error := None, lastUpdated := None\<rparr>"


section \<open>Validators (utils/validators)\<close>

definition validateApiResponse :: "jsval \<Rightarrow> error + bool" where
  "validateApiResponse response =
     (if \<not> truthy response \<or> \<not> typeof_object response then Inl InvalidApiResponseFormat
      else if truthy (get response ''error'') then Inl (ApiError (get response ''error''))
      else Inr True)"

text \<open>\<open>typeof value === 'number' && !isNaN(value) && isFinite(value)\<close>\<close>

fun isValidNumber :: "jsval \<Rightarrow> bool" where
  "isValidNumber (JNumber (Finite r)) = True"
| "isValidNumber v = False"

text \<open>The predicate passed to \<open>every\<close> in formats 1 and 3 of \<open>isValidRiskData\<close>.\<close>

definition valid_item :: "jsval \<Rightarrow> bool" where
  "valid_item item =
     (truthy item \<and>
      (is_number (get item ''systemic_risk'') \<or> is_number (get item ''systemic_risk_score'')) \<and>
      or_else (get item ''risk_level'') (get item ''market_regime'')
        \<in> set [JStr ''high'', JStr ''medium'', JStr ''low'', JStr ''RED'', JStr ''YELLOW'', JStr ''GREEN''] \<and>
      is_string (get item ''timestamp''))"

definition isValidSystemicRiskData :: "jsval \<Rightarrow> bool" where
  "isValidSystemicRiskData d =
     (if \<not> truthy d \<or> \<not> truthy (get d ''success'') \<or> \<not> truthy (get d ''data'') then False
      else
        let systemicData = get d ''data'';
            hasCoreComponents =
              list_all (\<lambda>component. get systemicData component \<noteq> JUndefined \<and>
                                     isValidNumber (get systemicData component))
                [''Systemic'', ''PCA'', ''Credit'']
        in if \<not> hasCoreComponents then False
           else list_ex (\<lambda>signal. get systemicData signal \<noteq> JUndefined)
                  [''Quantile_Signal'', ''DCC_Corr'', ''HAR_ExcessVol_Z'',
                   ''Credit_Spread_Change'', ''VIX_Change'', ''is_warning'',
                   ''Composite_Risk_Score''])"

definition isValidRiskData :: "jsval \<Rightarrow> bool" where
  "isValidRiskData d =
     (if \<not> truthy d then False
      else if truthy (get d ''data'') \<and> isArray (get d ''data'') then
        list_all valid_item (elements (get d ''data''))
      else if truthy (get d ''success'') \<and> truthy (get d ''data'') \<and> typeof_object (get d ''data'') then
        isValidSystemicRiskData d
      else if isArray d then list_all valid_item (elements d)
      else False)"

text \<open>\<open>/^\d{4}-\d{2}-\d{2}$/\<close>\<close>

definition digit :: "char \<Rightarrow> bool" where
  "digit c = (c \<in> set ''0123456789'')"

fun matches_date :: "string \<Rightarrow> bool" where
  "matches_date [y1, y2, y3, y4, d1, m1, m2, d2, a1, a2] =
     (digit y1 \<and> digit y2 \<and> digit y3 \<and> digit y4 \<and> d1 = CHR ''-'' \<and>
      digit m1 \<and> digit m2 \<and> d2 = CHR ''-'' \<and> digit a1 \<and> digit a2)"
| "matches_date s = False"

record range =
  days :: jsval
  startDate :: jsval
  endDate :: jsval

text \<open>
  \<open>validateDateRangeParams\<close>. \<open>dateValue\<close> stands for the time value of
  \<open>new Date(s)\<close>, \<open>None\<close> for an invalid date, which compares false to everything.
\<close>

definition date_after :: "(string \<Rightarrow> int option) \<Rightarrow> jsval \<Rightarrow> jsval \<Rightarrow> bool" where
  "date_after dateValue a b =
     (case (a, b) of
        (JStr x, JStr y) \<Rightarrow>
          (case (dateValue x, dateValue y) of (Some t, Some u) \<Rightarrow> t > u | _ \<Rightarrow> False)
      | _ \<Rightarrow> False)"

definition validateDateRangeParams :: "(string \<Rightarrow> int option) \<Rightarrow> range \<Rightarrow> error + bool" where
  "validateDateRangeParams dateValue params =
     (if days params \<noteq> JUndefined \<and>
         (\<not> isValidNumber (days params) \<or> (case days params of JNum r \<Rightarrow> r \<le> 0 | _ \<Rightarrow> False))
      then Inl (InvalidRange ''Days parameter must be a positive number'')
      else if startDate params \<noteq> JUndefined \<and>
         (case startDate params of JStr s \<Rightarrow> \<not> matches_date s | _ \<Rightarrow> True)
      then Inl (InvalidRange ''startDate must be in YYYY-MM-DD format'')
      else if endDate params \<noteq> JUndefined \<and>
         (case endDate params of JStr s \<Rightarrow> \<not> matches_date s | _ \<Rightarrow> True)
      then Inl (InvalidRange ''endDate must be in YYYY-MM-DD format'')
      else if truthy (startDate params) \<and> truthy (endDate params) \<and>
              date_after dateValue (startDate params) (endDate params)
      then Inl (InvalidRange ''startDate cannot be after endDate'')
      else Inr True)"

section \<open>The engine\<close>

text \<open>
  What the code leaves to the JavaScript engine and what rounds or depends on the
  implementation: the arithmetic on doubles (\<open>+\<close>, \<open>-\<close>, \<open>/\<close>, \<open>Math.pow(x, 2)\<close>,
  \<open>Math.sqrt\<close>), the reading of a string as a number and the writing of a number as a
  string. The model takes them as given and assumes nothing about them.
\<close>

record engine =
  fadd :: "number \<Rightarrow> number \<Rightarrow> number"
  fsub :: "number \<Rightarrow> number \<Rightarrow> number"
  fdiv :: "number \<Rightarrow> number \<Rightarrow> number"
  fpow2 :: "number \<Rightarrow> number"
  fsqrt :: "number \<Rightarrow> number"
  string_to_number :: "string \<Rightarrow> number"
  number_to_string :: "number \<Rightarrow> string"

text \<open>
  Conversion to a primitive throws a TypeError on an object that has a \<open>toString\<close>
  property of its own (decoded from JSON it is not a function, and the inherited
  \<open>valueOf\<close> returns the object), also when the object is met while an array is joined.
  Everything else converts: a plain object to \<open>[object Object]\<close>, an array to its
  elements joined by commas, \<open>null\<close> and \<open>undefined\<close> elements as the empty string.
\<close>

fun nullish :: "jsval \<Rightarrow> bool" where
  "nullish JUndefined = True"
| "nullish JNull = True"
| "nullish v = False"

fun convertible :: "jsval \<Rightarrow> bool" where
  "convertible (JObj kvs) = (map_of kvs ''toString'' = None)"
| "convertible (JArr xs) = (\<forall>x \<in> set xs. nullish x \<or> convertible x)"
| "convertible v = True"

fun join_comma :: "string list \<Rightarrow> string" where
  "join_comma [] = []"
| "join_comma [s] = s"
| "join_comma (s # t # ts) = s @ '','' @ join_comma (t # ts)"

text \<open>\<open>String(v)\<close>, for a convertible \<open>v\<close>.\<close>

fun to_string :: "engine \<Rightarrow> jsval \<Rightarrow> string" where
  "to_string eng JUndefined = ''undefined''"
| "to_string eng JNull = ''null''"
| "to_string eng (JBool b) = (if b then ''true'' else ''false'')"
| "to_string eng (JNumber n) = number_to_string eng n"
| "to_string eng (JStr s) = s"
| "to_string eng (JArr xs) = join_comma (map (\<lambda>x. if nullish x then [] else to_string eng x) xs)"
| "to_string eng (JObj kvs) = ''[object Object]''"

text \<open>\<open>ToPrimitive\<close>, \<open>ToNumber\<close> (what \<open>isNaN\<close>, \<open>-\<close>, \<open>/\<close> and \<open>Math.min\<close> apply) and \<open>+\<close>.\<close>

fun to_primitive :: "engine \<Rightarrow> jsval \<Rightarrow> jsval" where
  "to_primitive eng (JArr xs) = JStr (to_string eng (JArr xs))"
| "to_primitive eng (JObj kvs) = JStr (to_string eng (JObj kvs))"
| "to_primitive eng v = v"

fun to_number :: "engine \<Rightarrow> jsval \<Rightarrow> number" where
  "to_number eng JUndefined = NaN"
| "to_number eng JNull = Finite 0"
| "to_number eng (JBool b) = Finite (if b then 1 else 0)"
| "to_number eng (JNumber n) = n"
| "to_number eng (JStr s) = string_to_number eng s"
| "to_number eng (JArr xs) = string_to_number eng (to_string eng (JArr xs))"
| "to_number eng (JObj kvs) = string_to_number eng (to_string eng (JObj kvs))"

definition js_plus :: "engine \<Rightarrow> jsval \<Rightarrow> jsval \<Rightarrow> jsval" where
  "js_plus eng a b =
     (let l = to_primitive eng a; r = to_primitive eng b in
      if is_string l \<or> is_string r then JStr (to_string eng l @ to_string eng r)
      else JNumber (fadd eng (to_number eng l) (to_number eng r)))"

text \<open>
  \<open>Math.min\<close> and \<open>Math.max\<close> of numbers: \<open>NaN\<close> if one of them is, and for no
  argument the infinity they start from. (An engine's limit on the number of arguments
  of a call is not modelled.)
\<close>

fun number_less :: "number \<Rightarrow> number \<Rightarrow> bool" where
  "number_less (Finite x) (Finite y) = (x < y)"
| "number_less NaN b = False"
| "number_less a NaN = False"
| "number_less NegInfinity b = (b \<noteq> NegInfinity)"
| "number_less a PosInfinity = (a \<noteq> PosInfinity)"
| "number_less a b = False"

definition number_min :: "number \<Rightarrow> number \<Rightarrow> number" where
  "number_min a b = (if a = NaN \<or> b = NaN then NaN else if number_less b a then b else a)"

definition number_max :: "number \<Rightarrow> number \<Rightarrow> number" where
  "number_max a b = (if a = NaN \<or> b = NaN then NaN else if number_less a b then b else a)"

definition math_min :: "number list \<Rightarrow> number" where
  "math_min xs = fold (\<lambda>x m. number_min m x) xs PosInfinity"

definition math_max :: "number list \<Rightarrow> number" where
  "math_max xs = fold (\<lambda>x m. number_max m x) xs NegInfinity"

section \<open>The API service (services/api)\<close>

text \<open>
  What the service does to the outside is recorded in a trace: each call of \<open>fetch\<close>
  with its path and query parameters (in the order of the \<open>append\<close> calls), and each
  awaited \<open>setTimeout\<close> with its delay in milliseconds. The trace is in program order;
  every step of the source is awaited before the next one starts. The world the service
  runs in is the store, the trace and the engine.
\<close>

datatype event = Request string "(string \<times> jsval) list" | Sleep nat

record world =
  st :: store
  trace :: "event list"
  runtime :: engine

definition emit :: "event \<Rightarrow> world \<Rightarrow> world" where
  "emit e w = w\<lparr>trace := trace w @ [e]\<rparr>"

definition on_store :: "(store \<Rightarrow> store) \<Rightarrow> world \<Rightarrow> world" where
  "on_store f w = w\<lparr>st := f (st w)\<rparr>"

text \<open>
  The network: what the \<open>n\<close>-th call of \<open>fetch\<close> does. It rejects, or it resolves to a
  response with its \<open>ok\<close> flag, its \<open>status\<close> and what \<open>response.json()\<close> gives (a
  rejection message or the decoded body).
\<close>

datatype outcome = Rejects string | Responds bool nat "string + jsval"

text \<open>The body of the \<open>try\<close> block of one attempt.\<close>

definition attempt_result :: "outcome \<Rightarrow> error + jsval" where
  "attempt_result out =
     (case out of
        Rejects m \<Rightarrow> Inl (NetworkError m)
      | Responds ok status body \<Rightarrow>
          if \<not> ok then Inl (HttpError status)
          else (case body of
                  Inl m \<Rightarrow> Inl (JsonParseError m)
                | Inr d \<Rightarrow>
                    (case validateApiResponse d of
                       Inl e \<Rightarrow> Inl e
                     | Inr ok' \<Rightarrow> Inr d)))"

text \<open>
  The \<open>for\<close> loop of \<open>fetchWithRetry\<close>, entered at \<open>attempt\<close>. Leaving the loop without a
  \<open>return\<close> resolves to \<open>undefined\<close>.
\<close>

function fetchWithRetry_loop ::
  "(nat \<Rightarrow> outcome) \<Rightarrow> string \<Rightarrow> (string \<times> jsval) list \<Rightarrow> nat \<Rightarrow> nat \<Rightarrow> world \<Rightarrow> (error + jsval) \<times> world"
where
  "fetchWithRetry_loop net path params retries attempt w =
     (if attempt < retries then
        (let w1 = emit (Request path params) w in
         case attempt_result (net attempt) of
           Inr d \<Rightarrow> (Inr d, w1)
         | Inl e \<Rightarrow>
             if attempt = retries - 1 then
               (Inl e, on_store (setError (Some (MessageOf e))) w1)
             else
               fetchWithRetry_loop net path params retries (attempt + 1)
                 (emit (Sleep (2 ^ attempt * 1000)) w1))
      else (Inr JUndefined, w))"
  by pat_completeness auto
termination
  by (relation "measure (\<lambda>(net, path, params, retries, attempt, w). retries - attempt)") auto

definition fetchWithRetry ::
  "(nat \<Rightarrow> outcome) \<Rightarrow> string \<Rightarrow> (string \<times> jsval) list \<Rightarrow> nat \<Rightarrow> world \<Rightarrow> (error + jsval) \<times> world"
where
  "fetchWithRetry net path params retries w = fetchWithRetry_loop net path params retries 0 w"

text \<open>
  \<open>_generateSummaryFromArray\<close>. \<open>d.systemic_risk || 0\<close> throws on a \<open>null\<close> element;
  \<open>isNaN\<close> converts every value to a number and throws on one that cannot be
  converted. The values that are kept are the values themselves, not their readings:
  the first \<open>reduce\<close> adds them with \<open>+\<close>, which concatenates once a string or an array
  is met, and the division reads the result as a number again.
\<close>

definition generateSummaryFromArray :: "engine \<Rightarrow> jsval \<Rightarrow> error + jsval" where
  "generateSummaryFromArray eng d =
     (if \<not> truthy d \<or> \<not> isArray d \<or> length (elements d) = 0 then Inr JNull
      else if list_ex nullish (elements d) then Inl TypeError
      else
        let operands = map (\<lambda>x. or_else (get x ''systemic_risk'') (JNum 0)) (elements d) in
        if \<not> list_all convertible operands then Inl TypeError
        else
          let systemicRisks = filter (\<lambda>risk. to_number eng risk \<noteq> NaN) operands in
          if length systemicRisks = 0 then Inr JNull
          else
            let n = Finite (real (length systemicRisks));
                mean = fdiv eng
                         (to_number eng (fold (\<lambda>risk sum. js_plus eng sum risk) systemicRisks (JNum 0)))
                         n;
                std = fsqrt eng
                        (fdiv eng
                           (fold (\<lambda>risk sum. fadd eng sum (fpow2 eng (fsub eng (to_number eng risk) mean)))
                              systemicRisks (Finite 0))
                           n)
            in Inr (JObj
                 [(''period_mean'', JNumber mean),
                  (''period_std'', JNumber std),
                  (''period_min'', JNumber (math_min (map (to_number eng) systemicRisks))),
                  (''period_max'', JNumber (math_max (map (to_number eng) systemicRisks))),
                  (''data_points'', JNum (real (length (elements d)))),
                  (''date_range'', JObj
                     [(''start'', or_else (get (elements d ! 0) ''date'') (JStr [])),
                      (''end'', or_else (get (elements d ! (length (elements d) - 1)) ''date'')
                                  (JStr []))])]))"

text \<open>A parameter left out of the call is \<open>undefined\<close> and takes the default \<open>null\<close>.\<close>

definition default_null :: "jsval \<Rightarrow> jsval" where
  "default_null v = (if v = JUndefined then JNull else v)"

text \<open>The \<open>URLSearchParams\<close> that \<open>getRiskHistory\<close> builds, as the list of its \<open>append\<close> calls.\<close>

definition query_params :: "range \<Rightarrow> (string \<times> jsval) list" where
  "query_params r =
     (let d = default_null (days r); s = default_null (startDate r); e = default_null (endDate r) in
      (if truthy d then [(''days'', d)] else []) @
      (if truthy s then [(''start_date'', s)] else []) @
      (if truthy e then [(''end_date'', e)] else []) @
      (if \<not> truthy d \<and> \<not> truthy s \<and> \<not> truthy e then [(''days'', JNum 180)] else []))"

text \<open>What \<open>getRiskHistory\<close> makes of the response that \<open>fetchWithRetry\<close> returned.\<close>

definition shape_response :: "engine \<Rightarrow> jsval \<Rightarrow> error + jsval" where
  "shape_response eng response =
     (if truthy response \<and> truthy (get response ''data'') \<and> isArray (get response ''data'') then
        Inr response
      else if isArray response then
        (case generateSummaryFromArray eng response of
           Inl e \<Rightarrow> Inl e
         | Inr summary \<Rightarrow> Inr (JObj [(''data'', response), (''summary'', summary)]))
      else Inl InvalidRiskDataFormat)"

text \<open>
  \<open>getRiskHistory\<close>: the bound of \<open>fetchWithRetry\<close> is its default, 3; the \<open>finally\<close>
  block runs on every path.
\<close>

definition getRiskHistory :: "(nat \<Rightarrow> outcome) \<Rightarrow> range \<Rightarrow> world \<Rightarrow> (error + jsval) \<times> world" where
  "getRiskHistory net r w =
     (let w1 = on_store (setLoading True) w;
          (res, w2) = fetchWithRetry net ''/risk/history'' (query_params r) 3 w1;
          result = (case res of Inl e \<Rightarrow> Inl e
                    | Inr response \<Rightarrow> shape_response (runtime w2) response)
      in (result, on_store (setLoading False) w2))"

section \<open>The hook useRiskData (hooks/useRiskData)\<close>

text \<open>\<open>range == null\<close> holds of \<open>null\<close> and of \<open>undefined\<close>.\<close>

definition normalizeRange :: "jsval \<Rightarrow> range" where
  "normalizeRange r =
     (if nullish r then \<lparr>days = JUndefined, startDate = JUndefined, endDate = JUndefined\<rparr>
      else if is_number r then \<lparr>days = r, startDate = JUndefined, endDate = JUndefined\<rparr>
      else \<lparr>days = get r ''days'', startDate = get r ''startDate'', endDate = get r ''endDate''\<rparr>)"

text \<open>
  \<open>fetchRiskHistory\<close>, run to its end. \<open>loading\<close> is the \<open>isLoading\<close> the callback closed
  over, the value the store had at the render that created it. The text put into the
  store is \<open>err?.message || String(err)\<close>, the text of the caught error.
\<close>

definition fetchRiskHistory :: "(nat \<Rightarrow> outcome) \<Rightarrow> nat \<Rightarrow> bool \<Rightarrow> jsval \<Rightarrow> world \<Rightarrow> world" where
  "fetchRiskHistory net now loading rangeInput w =
     (let r = normalizeRange rangeInput in
      if loading then w
      else
        let w1 = on_store (setLoading True) w;
            (res, w2) = getRiskHistory net r w1;
            w3 = (case res of
                    Inr response \<Rightarrow>
                      if truthy response \<and> truthy (get response ''data'') \<and>
                         isArray (get response ''data'')
                      then on_store (setError None) (on_store (setRiskData now response) w2)
                      else on_store (setError (Some (MessageOf InvalidResponseFormat))) w2
                  | Inl e \<Rightarrow> on_store (setError (Some (MessageOf e))) w2)
        in on_store (setLoading False) w3)"

text \<open>
  The two effects of \<open>useRiskData\<close>, seen from the moment a fetch is started, not from its
  end. A call of \<open>fetchRiskHistory\<close> runs without interruption up to the first \<open>await\<close>
  that needs the network: the test of the captured \<open>isLoading\<close>, \<open>setLoading(true)\<close>
  in the hook and again in \<open>getRiskHistory\<close>, and the first \<open>fetch\<close>. From there the
  request is in flight until the network answers, which is never within the same pass
  over the effects. \<open>inflight\<close> lists the ranges of the requests that are out.
\<close>

record hook =
  previousRangeRef :: "range option"
  hstore :: store
  inflight :: "range list"

definition range_object :: "range \<Rightarrow> jsval" where
  "range_object r = JObj [(''days'', days r), (''startDate'', startDate r), (''endDate'', endDate r)]"

definition fetchRiskHistory_begin :: "bool \<Rightarrow> jsval \<Rightarrow> hook \<Rightarrow> hook" where
  "fetchRiskHistory_begin loading rangeInput h =
     (let r = normalizeRange rangeInput in
      if loading then h
      else h\<lparr>hstore := setLoading True (setLoading True (hstore h)),
             inflight := inflight h @ [r]\<rparr>)"

text \<open>The effect with dependencies \<open>[daysRange, fetchRiskHistory]\<close>.\<close>

text \<open>
  \<open>a !== b\<close>: \<open>NaN\<close> differs from itself. On arrays and objects \<open>!==\<close> compares
  identities, which the model does not keep; it compares them by structure. The fields
  compared below hold a number, a string or \<open>undefined\<close> in every call the application
  makes.
\<close>

definition strict_neq :: "jsval \<Rightarrow> jsval \<Rightarrow> bool" where
  "strict_neq a b = (a \<noteq> b \<or> a = JNumber NaN)"

definition range_changed :: "range option \<Rightarrow> range \<Rightarrow> bool" where
  "range_changed previous currentRange =
     (case previous of
        None \<Rightarrow> True
      | Some prev \<Rightarrow> strict_neq (days prev) (days currentRange) \<or>
                    strict_neq (startDate prev) (startDate currentRange) \<or>
                    strict_neq (endDate prev) (endDate currentRange))"

definition effect_range :: "jsval \<Rightarrow> bool \<Rightarrow> hook \<Rightarrow> hook" where
  "effect_range daysRange loading h =
     (let currentRange = normalizeRange daysRange;
          changed = range_changed (previousRangeRef h) currentRange
      in if changed then
           fetchRiskHistory_begin loading (range_object currentRange)
             (h\<lparr>previousRangeRef := Some currentRange\<rparr>)
         else h)"

text \<open>
  The effect with dependencies \<open>[]\<close>; \<open>history\<close> is the \<open>riskHistory\<close> of the render,
  and \<open>length_is_0\<close> is \<open>history.length === 0\<close>.
\<close>

fun length_is_0 :: "jsval \<Rightarrow> bool" where
  "length_is_0 (JArr xs) = (xs = [])"
| "length_is_0 (JStr s) = (s = [])"
| "length_is_0 v = False"

definition effect_mount :: "jsval \<Rightarrow> bool \<Rightarrow> jsval \<Rightarrow> hook \<Rightarrow> hook" where
  "effect_mount daysRange loading history h =
     (if \<not> truthy history \<or> length_is_0 history then
        fetchRiskHistory_begin loading daysRange h
      else h)"

text \<open>
  The first render reads the store once; both effects then run, in the order they are
  declared, with the values of that render. A later render runs the first effect only.
\<close>

definition mount :: "jsval \<Rightarrow> hook \<Rightarrow> hook" where
  "mount daysRange h =
     (let loading = isLoading (hstore h); history = riskHistory (hstore h) in
      effect_mount daysRange loading history (effect_range daysRange loading h))"

definition rerender :: "jsval \<Rightarrow> hook \<Rightarrow> hook" where
  "rerender daysRange h = effect_range daysRange (isLoading (hstore h)) h"

definition initial_hook :: hook where
  "initial_hook = \<lparr>previousRangeRef = None, hstore = initial_store, inflight = []\<rparr>"

section \<open>The push stream (hooks/useWebSocket)\<close>

text \<open>
  \<open>sockets\<close> holds the \<open>readyState\<close> of every WebSocket constructed so far, in the order
  of construction; \<open>socketRef\<close> is the index of the one the ref points to, or \<open>None\<close> for
  \<open>null\<close>. \<open>timers\<close> holds the due time of every pending \<open>setTimeout\<close> callback (each
  calls \<open>connect\<close>); the source keeps no handle to them. \<open>delivered\<close> lists the calls of
  \<open>onMessageCallback\<close>. The handlers are installed on the socket object, so they run for
  events of any socket that was constructed, whatever the ref points to by then.
\<close>

datatype ready = CONNECTING | OPEN | CLOSING | CLOSED

record stream =
  sstore :: store
  socketRef :: "nat option"
  sockets :: "ready list"
  timers :: "nat list"
  delivered :: "jsval list"

definition initial_stream :: stream where
  "initial_stream =
     \<lparr>sstore = initial_store, socketRef = None, sockets = [], timers = [], delivered = []\<rparr>"

definition readyState :: "stream \<Rightarrow> nat \<Rightarrow> ready option" where
  "readyState c i = (if i < length (sockets c) then Some (sockets c ! i) else None)"

text \<open>\<open>constructs\<close>: whether \<open>new WebSocket(wsUrl)\<close> returns rather than throws.\<close>

definition connect :: "bool \<Rightarrow> stream \<Rightarrow> stream" where
  "connect constructs c =
     (if (case socketRef c of Some i \<Rightarrow> readyState c i = Some OPEN | None \<Rightarrow> False) then c
      else if constructs then
        c\<lparr>socketRef := Some (length (sockets c)), sockets := sockets c @ [CONNECTING]\<rparr>
      else
        c\<lparr>sstore := setError (Some (Literal ''Failed to establish WebSocket connection''))
                      (sstore c)\<rparr>)"

definition onopen :: "nat \<Rightarrow> stream \<Rightarrow> stream" where
  "onopen i c = c\<lparr>sockets := (sockets c)[i := OPEN], sstore := setError None (sstore c)\<rparr>"

text \<open>
  \<open>parsed\<close> is \<open>JSON.parse(event.data)\<close>, \<open>None\<close> when it throws; \<open>callback\<close> tells
  whether an \<open>onMessageCallback\<close> was given.
\<close>

definition onmessage :: "nat \<Rightarrow> bool \<Rightarrow> jsval option \<Rightarrow> stream \<Rightarrow> stream" where
  "onmessage now callback parsed c =
     (case parsed of
        None \<Rightarrow>
          c\<lparr>sstore := setError (Some (Literal ''Failed to process WebSocket message'')) (sstore c)\<rparr>
      | Some d \<Rightarrow>
          if truthy d \<and> truthy (get d ''timestamp'') \<and> \<not> truthy (get d ''error'') then
            c\<lparr>sstore := setRealtimeData now d (sstore c),
              delivered := (if callback then delivered c @ [d] else delivered c)\<rparr>
          else c)"

text \<open>The close event of socket \<open>i\<close> at time \<open>now\<close>, and its handler.\<close>

definition onclose :: "nat \<Rightarrow> nat \<Rightarrow> stream \<Rightarrow> stream" where
  "onclose now i c = c\<lparr>sockets := (sockets c)[i := CLOSED], timers := timers c @ [now + 5000]\<rparr>"

definition onerror :: "stream \<Rightarrow> stream" where
  "onerror c = c\<lparr>sstore := setError (Some (Literal ''WebSocket connection error'')) (sstore c)\<rparr>"

text \<open>The oldest pending timer fires and calls \<open>connect\<close>.\<close>

definition timer_fires :: "bool \<Rightarrow> stream \<Rightarrow> stream" where
  "timer_fires constructs c =
     (case timers c of [] \<Rightarrow> c | t # ts \<Rightarrow> connect constructs (c\<lparr>timers := ts\<rparr>))"

text \<open>\<open>disconnect\<close>, the cleanup of the effect: \<open>close()\<close> on the socket, then the ref is cleared.\<close>

definition disconnect :: "stream \<Rightarrow> stream" where
  "disconnect c =
     (case socketRef c of
        None \<Rightarrow> c
      | Some i \<Rightarrow>
          c\<lparr>sockets := (sockets c)[i := (if readyState c i = Some CLOSED then CLOSED else CLOSING)],
            socketRef := None\<rparr>)"

section \<open>Observations and sample inputs\<close>

text \<open>The events a run added to the trace.\<close>

definition events_since :: "world \<Rightarrow> world \<Rightarrow> event list" where
  "events_since w w' = drop (length (trace w)) (trace w')"

text \<open>
  An engine to run the samples on. Its arithmetic is exact on finite numbers and follows
  the rules of doubles on infinities and \<open>NaN\<close>. It reads the empty string as 0, a
  string of decimal digits as the number written and any other string as \<open>NaN\<close>, and it
  writes a natural number in decimal, \<open>NaN\<close> and the infinities by their names and any
  other number as \<open>#\<close>. Every result stated below on a sample is reached without an
  operation that rounds, and through strings that a JavaScript engine reads and writes
  the same way.
\<close>

fun plain_add :: "number \<Rightarrow> number \<Rightarrow> number" where
  "plain_add (Finite x) (Finite y) = Finite (x + y)"
| "plain_add NaN b = NaN"
| "plain_add a NaN = NaN"
| "plain_add PosInfinity NegInfinity = NaN"
| "plain_add NegInfinity PosInfinity = NaN"
| "plain_add PosInfinity b = PosInfinity"
| "plain_add a PosInfinity = PosInfinity"
| "plain_add NegInfinity b = NegInfinity"
| "plain_add a NegInfinity = NegInfinity"

fun negate :: "number \<Rightarrow> number" where
  "negate (Finite x) = Finite (- x)"
| "negate PosInfinity = NegInfinity"
| "negate NegInfinity = PosInfinity"
| "negate NaN = NaN"

fun plain_div :: "number \<Rightarrow> number \<Rightarrow> number" where
  "plain_div (Finite x) (Finite y) =
     (if y \<noteq> 0 then Finite (x / y)
      else if x = 0 then NaN else if 0 < x then PosInfinity else NegInfinity)"
| "plain_div NaN b = NaN"
| "plain_div a NaN = NaN"
| "plain_div (Finite x) b = Finite 0"
| "plain_div a (Finite y) = (if (a = PosInfinity) = (0 \<le> y) then PosInfinity else NegInfinity)"
| "plain_div a b = NaN"

fun plain_pow2 :: "number \<Rightarrow> number" where
  "plain_pow2 (Finite x) = Finite (x ^ 2)"
| "plain_pow2 NaN = NaN"
| "plain_pow2 a = PosInfinity"

fun plain_sqrt :: "number \<Rightarrow> number" where
  "plain_sqrt (Finite x) = (if x < 0 then NaN else Finite (sqrt x))"
| "plain_sqrt PosInfinity = PosInfinity"
| "plain_sqrt a = NaN"

definition digit_value :: "char \<Rightarrow> nat" where
  "digit_value c = length (takeWhile (\<lambda>d. d \<noteq> c) ''0123456789'')"

definition plain_read :: "string \<Rightarrow> number" where
  "plain_read s =
     (if s = [] then Finite 0
      else if list_all digit s then Finite (real (foldl (\<lambda>a c. 10 * a + digit_value c) 0 s))
      else NaN)"

fun decimal :: "nat \<Rightarrow> string" where
  "decimal n =
     (if n < 10 then [''0123456789'' ! n]
      else decimal (n div 10) @ [''0123456789'' ! (n mod 10)])"

fun plain_write :: "number \<Rightarrow> string" where
  "plain_write (Finite x) = (if 0 \<le> x \<and> x = real (nat \<lfloor>x\<rfloor>) then decimal (nat \<lfloor>x\<rfloor>) else ''#'')"
| "plain_write PosInfinity = ''Infinity''"
| "plain_write NegInfinity = ''-Infinity''"
| "plain_write NaN = ''NaN''"

definition plain_engine :: engine where
  "plain_engine =
     \<lparr>fadd = plain_add, fsub = (\<lambda>a b. plain_add a (negate b)), fdiv = plain_div,
      fpow2 = plain_pow2, fsqrt = plain_sqrt,
      string_to_number = plain_read, number_to_string = plain_write\<rparr>"

text \<open>
  A network that refuses two connections and then answers; one that answers 503 every
  time; a store that already holds a history; a well-formed message of the push stream;
  the range \<open>{days: 180}\<close>.
\<close>

definition flaky :: "nat \<Rightarrow> outcome" where
  "flaky n = (if n < 2 then Rejects ''connection refused''
              else Responds True 200 (Inr (JObj [(''data'', JArr [])])))"

definition down :: "nat \<Rightarrow> outcome" where
  "down n = Responds False 503 (Inl [])"

definition loaded_world :: world where
  "loaded_world =
     \<lparr>st = initial_store\<lparr>riskHistory := JArr [JObj [(''systemic_risk'', JNum 1)]]\<rparr>, trace = [],
      runtime = plain_engine\<rparr>"

definition stream_message :: jsval where
  "stream_message = JObj [(''timestamp'', JStr ''2024-05-01T12:00:00Z''), (''signals'', JObj [])]"

definition r180 :: range where
  "r180 = \<lparr>days = JNum 180, startDate = JUndefined, endDate = JUndefined\<rparr>"

text \<open>A stream message whose \<open>timestamp\<close> is a number, seconds since the epoch.\<close>

definition epoch_message :: jsval where
  "epoch_message = JObj [(''timestamp'', JNum 1714564800), (''signals'', JObj [])]"

text \<open>The calls of \<open>fetch\<close> in a list of events.\<close>

fun is_request :: "event \<Rightarrow> bool" where
  "is_request (Request path params) = True"
| "is_request (Sleep ms) = False"

definition requests :: "event list \<Rightarrow> event list" where
  "requests evs = filter is_request evs"

text \<open>
  A network that answers 200 with a body carrying an \<open>error\<close> field every time, and one
  that refuses once and then answers 200 with an object that has no \<open>data\<close>.
\<close>

definition erring :: "nat \<Rightarrow> outcome" where
  "erring n = Responds True 200 (Inr (JObj [(''error'', JStr ''upstream failed'')]))"

definition shapeless :: "nat \<Rightarrow> outcome" where
  "shapeless n = (if n = 0 then Rejects ''connection refused''
                  else Responds True 200 (Inr (JObj [(''status'', JStr ''ok'')])))"

text \<open>
  A network that answers 200 with an empty batch every time; the ranges \<open>{days: -5}\<close>,
  \<open>{}\<close> and one whose \<open>startDate\<close> is after its \<open>endDate\<close>.
\<close>

definition steady :: "nat \<Rightarrow> outcome" where
  "steady n = Responds True 200 (Inr (JObj [(''data'', JArr [])]))"

definition negative_days :: range where
  "negative_days = \<lparr>days = JNum (- 5), startDate = JUndefined, endDate = JUndefined\<rparr>"

definition no_range :: range where
  "no_range = \<lparr>days = JUndefined, startDate = JUndefined, endDate = JUndefined\<rparr>"

definition inverted :: range where
  "inverted = \<lparr>days = JUndefined, startDate = JStr ''2024-03-01'', endDate = JStr ''2024-01-01''\<rparr>"









text \<open>
  An observation whose \<open>risk_level\<close> is outside the six accepted values, and two
  networks that answer with it: as a legacy array, and as an enhanced batch next to a
  \<open>null\<close> item. An observation whose score is a text, and a network that answers a
  legacy array of the two.
\<close>

definition off_scale :: jsval where
  "off_scale =
     JObj [(''date'', JStr ''2024-01-01''), (''systemic_risk'', JNum 1),
           (''risk_level'', JStr ''extreme''), (''timestamp'', JStr ''2024-01-01T00:00:00Z'')]"

definition off_scale_batch :: "nat \<Rightarrow> outcome" where
  "off_scale_batch n = Responds True 200 (Inr (JArr [off_scale]))"

definition off_scale_enhanced :: "nat \<Rightarrow> outcome" where
  "off_scale_enhanced n = Responds True 200 (Inr (JObj [(''data'', JArr [off_scale, JNull])]))"

definition unscored :: jsval where
  "unscored =
     JObj [(''date'', JStr ''2024-01-02''), (''systemic_risk'', JStr ''n/a''),
           (''risk_level'', JStr ''low''), (''timestamp'', JStr ''2024-01-02T00:00:00Z'')]"

definition unscored_batch :: "nat \<Rightarrow> outcome" where
  "unscored_batch n = Responds True 200 (Inr (JArr [unscored, off_scale]))"

section \<open>Properties\<close>

declare fetchWithRetry_loop.simps [simp del]

subsection \<open>Basic facts\<close>

lemma trace_emit [simp]: "trace (emit e w) = trace w @ [e]"
  by (simp add: emit_def)

lemma st_emit [simp]: "st (emit e w) = st w"
  by (simp add: emit_def)

lemma trace_on_store [simp]: "trace (on_store f w) = trace w"
  by (simp add: on_store_def)

lemma st_on_store [simp]: "st (on_store f w) = f (st w)"
  by (simp add: on_store_def)

lemma runtime_emit [simp]: "runtime (emit e w) = runtime w"
  by (simp add: emit_def)

lemma runtime_on_store [simp]: "runtime (on_store f w) = runtime w"
  by (simp add: on_store_def)

lemma events_since_append [simp]: "trace w' = trace w @ evs \<Longrightarrow> events_since w w' = evs"
  by (simp add: events_since_def)

lemma loop_returns:
  "attempt < retries \<Longrightarrow> attempt_result (net attempt) = Inr d \<Longrightarrow>
   fetchWithRetry_loop net path params retries attempt w = (Inr d, emit (Request path params) w)"
  by (subst fetchWithRetry_loop.simps) simp

lemma loop_gives_up:
  "attempt < retries \<Longrightarrow> attempt_result (net attempt) = Inl e \<Longrightarrow> attempt = retries - 1 \<Longrightarrow>
   fetchWithRetry_loop net path params retries attempt w =
     (Inl e, on_store (setError (Some (MessageOf e))) (emit (Request path params) w))"
  by (subst fetchWithRetry_loop.simps) simp

lemma loop_retries:
  "attempt < retries \<Longrightarrow> attempt_result (net attempt) = Inl e \<Longrightarrow> attempt \<noteq> retries - 1 \<Longrightarrow>
   fetchWithRetry_loop net path params retries attempt w =
     fetchWithRetry_loop net path params retries (attempt + 1)
       (emit (Sleep (2 ^ attempt * 1000)) (emit (Request path params) w))"
  by (subst fetchWithRetry_loop.simps) simp

lemma loop_exhausted:
  "\<not> attempt < retries \<Longrightarrow>
   fetchWithRetry_loop net path params retries attempt w = (Inr JUndefined, w)"
  by (subst fetchWithRetry_loop.simps) simp

lemma three_first:
  "attempt_result (net 0) = Inr d \<Longrightarrow>
   fetchWithRetry net path params 3 w = (Inr d, emit (Request path params) w)"
  by (simp add: fetchWithRetry_def loop_returns)

lemma three_second:
  "attempt_result (net 0) = Inl e0 \<Longrightarrow> attempt_result (net 1) = Inr d \<Longrightarrow>
   fetchWithRetry net path params 3 w =
     (Inr d, emit (Request path params) (emit (Sleep 1000) (emit (Request path params) w)))"
  by (simp add: fetchWithRetry_def loop_retries loop_returns)

lemma three_third:
  "attempt_result (net 0) = Inl e0 \<Longrightarrow> attempt_result (net 1) = Inl e1 \<Longrightarrow>
   attempt_result (net 2) = Inr d \<Longrightarrow>
   fetchWithRetry net path params 3 w =
     (Inr d, emit (Request path params) (emit (Sleep 2000) (emit (Request path params)
               (emit (Sleep 1000) (emit (Request path params) w)))))"
  by (simp add: fetchWithRetry_def loop_retries loop_returns numeral_2_eq_2)

lemma three_none:
  "attempt_result (net 0) = Inl e0 \<Longrightarrow> attempt_result (net 1) = Inl e1 \<Longrightarrow>
   attempt_result (net 2) = Inl e2 \<Longrightarrow>
   fetchWithRetry net path params 3 w =
     (Inl e2, on_store (setError (Some (MessageOf e2)))
        (emit (Request path params) (emit (Sleep 2000) (emit (Request path params)
               (emit (Sleep 1000) (emit (Request path params) w))))))"
  by (simp add: fetchWithRetry_def loop_retries loop_gives_up numeral_2_eq_2)





subsection \<open>The retry loop\<close>

lemma three_cases:
  "events_since w (snd (fetchWithRetry net path params 3 w))
     \<in> {[Request path params],
        [Request path params, Sleep 1000, Request path params],
        [Request path params, Sleep 1000, Request path params, Sleep 2000, Request path params]}"
proof (cases "attempt_result (net 0)")
  case (Inr d)
  then show ?thesis by (simp add: three_first)
next
  case e0: (Inl e0)
  show ?thesis
  proof (cases "attempt_result (net 1)")
    case (Inr d)
    with e0 show ?thesis by (simp add: three_second)
  next
    case e1: (Inl e1)
    show ?thesis
    proof (cases "attempt_result (net 2)")
      case (Inr d)
      with e0 e1 show ?thesis by (simp add: three_third)
    next
      case (Inl e2)
      with e0 e1 show ?thesis by (simp add: three_none)
    qed
  qed
qed

lemma riskHistory_setError [simp]: "riskHistory (setError e s) = riskHistory s"
  by (simp add: setError_def)

lemma riskHistory_setLoading [simp]: "riskHistory (setLoading b s) = riskHistory s"
  by (simp add: setLoading_def)

lemma error_setError [simp]: "error (setError e s) = e"
  by (simp add: setError_def)

lemma error_setLoading [simp]: "error (setLoading b s) = error s"
  by (simp add: setLoading_def)

lemma getRiskHistory_none:
  "attempt_result (net 0) = Inl e0 \<Longrightarrow> attempt_result (net 1) = Inl e1 \<Longrightarrow>
   attempt_result (net 2) = Inl e2 \<Longrightarrow>
   fst (getRiskHistory net r w) = Inl e2 \<and>
   riskHistory (st (snd (getRiskHistory net r w))) = riskHistory (st w) \<and>
   error (st (snd (getRiskHistory net r w))) = Some (MessageOf e2)"
  by (simp add: getRiskHistory_def three_none)

lemma fetchRiskHistory_none:
  "attempt_result (net 0) = Inl e0 \<Longrightarrow> attempt_result (net 1) = Inl e1 \<Longrightarrow>
   attempt_result (net 2) = Inl e2 \<Longrightarrow>
   riskHistory (st (fetchRiskHistory net now False rangeInput w)) = riskHistory (st w) \<and>
   error (st (fetchRiskHistory net now False rangeInput w)) = Some (MessageOf e2)"
  using getRiskHistory_none [of net e0 e1 e2 "normalizeRange rangeInput" "on_store (setLoading True) w"]
  by (auto simp: fetchRiskHistory_def Let_def split: prod.splits)


text \<open>
  Claim C1. A fetch makes at most three attempts, one after the other: the trace of
  \<open>fetchWithRetry\<close> with the bound 3 is one request, or two with a wait of 1000 ms
  between them, or three with waits of 1000 ms and 2000 ms (\<open>2 ^ k\<close> seconds after the
  failed attempt \<open>k\<close>). When the first two attempts fail and the third succeeds, the call
  returns the body after exactly three requests. When all three fail, the last error is
  written to the store's \<open>error\<close> field and raised to the caller, through
  \<open>getRiskHistory\<close> as well, and \<open>riskHistory\<close> is what it was, also after the hook's
  \<open>fetchRiskHistory\<close> has handled the error. An attempt fails when the body of the
  \<open>try\<close> block throws (\<open>attempt_result\<close> is \<open>Inl\<close>).
\<close>

theorem retry_three_attempts:
  "events_since w (snd (fetchWithRetry net path params 3 w))
     \<in> {[Request path params],
        [Request path params, Sleep 1000, Request path params],
        [Request path params, Sleep 1000, Request path params, Sleep 2000, Request path params]}
   \<and> (attempt_result (net 0) = Inl e0 \<and> attempt_result (net 1) = Inl e1 \<and>
      attempt_result (net 2) = Inr d \<longrightarrow>
        fst (fetchWithRetry net path params 3 w) = Inr d \<and>
        events_since w (snd (fetchWithRetry net path params 3 w)) =
          [Request path params, Sleep 1000, Request path params, Sleep 2000, Request path params])
   \<and> (attempt_result (net 0) = Inl e0 \<and> attempt_result (net 1) = Inl e1 \<and>
      attempt_result (net 2) = Inl e2 \<longrightarrow>
        fst (fetchWithRetry net path params 3 w) = Inl e2 \<and>
        events_since w (snd (fetchWithRetry net path params 3 w)) =
          [Request path params, Sleep 1000, Request path params, Sleep 2000, Request path params] \<and>
        error (st (snd (fetchWithRetry net path params 3 w))) = Some (MessageOf e2) \<and>
        riskHistory (st (snd (fetchWithRetry net path params 3 w))) = riskHistory (st w) \<and>
        fst (getRiskHistory net r w) = Inl e2 \<and>
        riskHistory (st (snd (getRiskHistory net r w))) = riskHistory (st w) \<and>
        riskHistory (st (fetchRiskHistory net now False rangeInput w)) = riskHistory (st w) \<and>
        error (st (fetchRiskHistory net now False rangeInput w)) = Some (MessageOf e2))"
proof (intro conjI impI)
  show "events_since w (snd (fetchWithRetry net path params 3 w))
     \<in> {[Request path params],
        [Request path params, Sleep 1000, Request path params],
        [Request path params, Sleep 1000, Request path params, Sleep 2000, Request path params]}"
    by (rule three_cases)
next
  assume a: "attempt_result (net 0) = Inl e0 \<and> attempt_result (net 1) = Inl e1 \<and>
      attempt_result (net 2) = Inr d"
  then show "fst (fetchWithRetry net path params 3 w) = Inr d"
    by (simp add: three_third)
  from a show "events_since w (snd (fetchWithRetry net path params 3 w)) =
          [Request path params, Sleep 1000, Request path params, Sleep 2000, Request path params]"
    by (simp add: three_third)
next
  assume a: "attempt_result (net 0) = Inl e0 \<and> attempt_result (net 1) = Inl e1 \<and>
      attempt_result (net 2) = Inl e2"
  then show "fst (fetchWithRetry net path params 3 w) = Inl e2"
    by (simp add: three_none)
  from a show "events_since w (snd (fetchWithRetry net path params 3 w)) =
          [Request path params, Sleep 1000, Request path params, Sleep 2000, Request path params]"
    by (simp add: three_none)
  from a show "error (st (snd (fetchWithRetry net path params 3 w))) = Some (MessageOf e2)"
    by (simp add: three_none)
  from a show "riskHistory (st (snd (fetchWithRetry net path params 3 w))) = riskHistory (st w)"
    by (simp add: three_none)
  from a show "fst (getRiskHistory net r w) = Inl e2"
    by (simp add: getRiskHistory_none)
  from a show "riskHistory (st (snd (getRiskHistory net r w))) = riskHistory (st w)"
    by (simp add: getRiskHistory_none)
  from a show "riskHistory (st (fetchRiskHistory net now False rangeInput w)) = riskHistory (st w)"
    by (simp add: fetchRiskHistory_none)
  from a show "error (st (fetchRiskHistory net now False rangeInput w)) = Some (MessageOf e2)"
    by (simp add: fetchRiskHistory_none)
qed


theorem retry_three_attempts_witness:
  "fst (fetchWithRetry flaky ''/risk/history'' [(''days'', JNum 180)] 3 loaded_world)
     = Inr (JObj [(''data'', JArr [])]) \<and>
   events_since loaded_world
     (snd (fetchWithRetry flaky ''/risk/history'' [(''days'', JNum 180)] 3 loaded_world))
     = [Request ''/risk/history'' [(''days'', JNum 180)], Sleep 1000,
        Request ''/risk/history'' [(''days'', JNum 180)], Sleep 2000,
        Request ''/risk/history'' [(''days'', JNum 180)]] \<and>
   fst (fetchWithRetry down ''/risk/history'' [(''days'', JNum 180)] 3 loaded_world)
     = Inl (HttpError 503) \<and>
   error (st (snd (fetchWithRetry down ''/risk/history'' [(''days'', JNum 180)] 3 loaded_world)))
     = Some (MessageOf (HttpError 503)) \<and>
   riskHistory (st (fetchRiskHistory down 7 False (JNum 180) loaded_world))
     = JArr [JObj [(''systemic_risk'', JNum 1)]] \<and>
   error (st (fetchRiskHistory down 7 False (JNum 180) loaded_world))
     = Some (MessageOf (HttpError 503))"
proof -
  have f: "attempt_result (flaky 0) = Inl (NetworkError ''connection refused'') \<and>
           attempt_result (flaky 1) = Inl (NetworkError ''connection refused'') \<and>
           attempt_result (flaky 2) = Inr (JObj [(''data'', JArr [])])"
    by (simp add: flaky_def attempt_result_def validateApiResponse_def)
  have d: "attempt_result (down 0) = Inl (HttpError 503) \<and>
           attempt_result (down 1) = Inl (HttpError 503) \<and>
           attempt_result (down 2) = Inl (HttpError 503)"
    by (simp add: down_def attempt_result_def)
  have h: "riskHistory (st loaded_world) = JArr [JObj [(''systemic_risk'', JNum 1)]]"
    by (simp add: loaded_world_def)
  show ?thesis
    using f d h
      retry_three_attempts [of loaded_world flaky "''/risk/history''" "[(''days'', JNum 180)]"
        "NetworkError ''connection refused''" "NetworkError ''connection refused''"
        "JObj [(''data'', JArr [])]"]
      retry_three_attempts [of loaded_world down "''/risk/history''" "[(''days'', JNum 180)]"
        "HttpError 503" "HttpError 503" _ "HttpError 503" _ 7 "JNum 180"]
    by simp
qed


subsection \<open>The store\<close>

text \<open>
  Claim C10. On an argument that is neither an object with an array in \<open>data\<close> nor an
  array, \<open>setRiskData\<close> sets \<open>riskHistory\<close> to the empty array, \<open>summaryData\<close> to
  \<open>null\<close>, \<open>currentMetrics\<close> to the empty object and \<open>error\<close> to
  \<open>'Invalid data format'\<close>: the history loaded before is not kept.
\<close>

theorem setRiskData_invalid_resets:
  "\<not> isArray (get d ''data'') \<Longrightarrow> \<not> isArray d \<Longrightarrow>
   riskHistory (setRiskData now d s) = JArr [] \<and>
   summaryData (setRiskData now d s) = JNull \<and>
   currentMetrics (setRiskData now d s) = JObj [] \<and>
   error (setRiskData now d s) = Some (Literal ''Invalid data format'')"
  by (simp add: setRiskData_def)

theorem setRiskData_invalid_resets_witness:
  "riskHistory (setRiskData 7 (JObj [(''data'', JStr ''none'')]) (st loaded_world)) = JArr [] \<and>
   summaryData (setRiskData 7 (JObj [(''data'', JStr ''none'')]) (st loaded_world)) = JNull \<and>
   currentMetrics (setRiskData 7 (JObj [(''data'', JStr ''none'')]) (st loaded_world)) = JObj [] \<and>
   error (setRiskData 7 (JObj [(''data'', JStr ''none'')]) (st loaded_world))
     = Some (Literal ''Invalid data format'') \<and>
   riskHistory (st loaded_world) \<noteq> JArr []"
  using setRiskData_invalid_resets [of "JObj [(''data'', JStr ''none'')]" 7 "st loaded_world"]
  by (simp add: loaded_world_def)







subsection \<open>The range effects\<close>

text \<open>
  Claim C5 on the first render over the initial store, with \<open>daysRange = 180\<close>. The
  range effect finds no previous range and starts a fetch; the mount effect finds the
  history of the render empty and calls \<open>fetchRiskHistory\<close> too, whose guard still reads
  the \<open>isLoading = false\<close> of the render. Two requests for the same range are in flight.
\<close>

theorem mount_starts_two_fetches:
  "inflight (mount (JNum 180) initial_hook) = [r180, r180] \<and>
   previousRangeRef (mount (JNum 180) initial_hook) = Some r180"
  by (simp add: mount_def initial_hook_def initial_store_def effect_range_def effect_mount_def
      range_changed_def fetchRiskHistory_begin_def normalizeRange_def range_object_def r180_def
      Let_def)

text \<open>
  The range effect on its own. It records the requested range whenever that differs
  from the recorded one, and starts a fetch for it unless the \<open>isLoading\<close> of the
  render is set; a range that arrives while loading is recorded and not fetched, so
  asking for it again starts nothing (unless a field of it is \<open>NaN\<close>, which differs
  from itself).
\<close>

lemma normalizeRange_range_object: "normalizeRange (range_object r) = r"
  by (simp add: normalizeRange_def range_object_def)

lemma effect_range_inflight:
  "inflight (effect_range daysRange loading h) =
     (if range_changed (previousRangeRef h) (normalizeRange daysRange) \<and> \<not> loading
      then inflight h @ [normalizeRange daysRange] else inflight h)"
  by (simp add: effect_range_def fetchRiskHistory_begin_def normalizeRange_range_object Let_def)

lemma effect_range_records:
  "previousRangeRef (effect_range daysRange loading h) =
     (if range_changed (previousRangeRef h) (normalizeRange daysRange)
      then Some (normalizeRange daysRange) else previousRangeRef h)"
  by (simp add: effect_range_def fetchRiskHistory_begin_def Let_def)

lemma repeated_range_starts_nothing:
  assumes "\<not> range_changed (Some (normalizeRange daysRange)) (normalizeRange daysRange)"
    and "range_changed (previousRangeRef h) (normalizeRange daysRange)"
  shows "inflight (effect_range daysRange loading' (effect_range daysRange loading h))
     = inflight (effect_range daysRange loading h)"
  using assms by (simp add: effect_range_inflight [of daysRange loading'] effect_range_records)

lemma rerender_same_range:
  assumes "\<not> range_changed (Some (normalizeRange daysRange)) (normalizeRange daysRange)"
    and "range_changed (previousRangeRef h) (normalizeRange daysRange)"
  shows "inflight (rerender daysRange (effect_range daysRange loading h))
     = inflight (effect_range daysRange loading h)"
  using assms by (simp add: rerender_def repeated_range_starts_nothing)

subsection \<open>The push stream\<close>

text \<open>
  Claim C7 after teardown. A socket is opened and the consumer unmounts: \<open>disconnect\<close>
  closes the socket and clears the ref. The close event of that socket then runs the
  \<open>onclose\<close> handler, which schedules \<open>connect\<close> 5000 ms later; nothing cancels the
  timer, and when it fires a second socket is constructed.
\<close>

theorem reconnect_after_teardown:
  "timers (onclose 1000 0 (disconnect (onopen 0 (connect True initial_stream)))) = [6000] \<and>
   socketRef (disconnect (onopen 0 (connect True initial_stream))) = None \<and>
   sockets (timer_fires True (onclose 1000 0 (disconnect (onopen 0 (connect True initial_stream)))))
     = [CLOSED, CONNECTING] \<and>
   socketRef (timer_fires True (onclose 1000 0 (disconnect (onopen 0 (connect True initial_stream)))))
     = Some 1"
  by (simp add: timer_fires_def onclose_def disconnect_def onopen_def connect_def
      initial_stream_def readyState_def)

text \<open>
  Every close, of whichever socket and at whatever time, schedules one call of
  \<open>connect\<close> 5000 ms later, and \<open>disconnect\<close> leaves the pending timers alone.
\<close>

lemma onclose_schedules_one: "timers (onclose now i c) = timers c @ [now + 5000]"
  by (simp add: onclose_def)

lemma disconnect_keeps_timers: "timers (disconnect c) = timers c \<and> socketRef (disconnect c) = None"
  by (cases "socketRef c") (simp_all add: disconnect_def)

text \<open>
  Claim C6, as stated, fails: the handler tests \<open>data.timestamp\<close> for truthiness, not
  for being a string. A message with a numeric timestamp is put into the store and
  handed to the observer.
\<close>

theorem numeric_timestamp_forwarded:
  "delivered (onmessage 9 True (Some epoch_message) initial_stream) = [epoch_message] \<and>
   currentMetrics (sstore (onmessage 9 True (Some epoch_message) initial_stream)) = epoch_message \<and>
   \<not> is_string (get epoch_message ''timestamp'')"
  by (simp add: onmessage_def epoch_message_def initial_stream_def setRealtimeData_def)

lemma nonempty_string_truthy: "is_string v \<Longrightarrow> v \<noteq> JStr [] \<Longrightarrow> truthy v"
  by (cases v) simp_all

text \<open>
  Claim C6, amended. A decoded message is forwarded, to the store as the new
  \<open>currentMetrics\<close> and to the observer when there is one, if and only if it is truthy,
  its \<open>timestamp\<close> is truthy and its \<open>error\<close> is not; so every message with a non-empty
  string \<open>timestamp\<close> and no \<open>error\<close> field is forwarded. Any other decoded message
  changes nothing. A message that does not decode sets the store's \<open>error\<close>. In no case
  do the socket reference, the sockets or the timers change.
\<close>

theorem onmessage_forwards:
  "(truthy d \<and> truthy (get d ''timestamp'') \<and> \<not> truthy (get d ''error'') \<longrightarrow>
      onmessage now callback (Some d) c =
        c\<lparr>sstore := setRealtimeData now d (sstore c),
          delivered := (if callback then delivered c @ [d] else delivered c)\<rparr> \<and>
      currentMetrics (sstore (onmessage now callback (Some d) c)) = d \<and>
      lastUpdated (sstore (onmessage now callback (Some d) c)) = Some now) \<and>
   (\<not> (truthy d \<and> truthy (get d ''timestamp'') \<and> \<not> truthy (get d ''error'')) \<longrightarrow>
      onmessage now callback (Some d) c = c) \<and>
   (is_string (get d ''timestamp'') \<and> get d ''timestamp'' \<noteq> JStr [] \<and>
    get d ''error'' = JUndefined \<longrightarrow>
      onmessage now callback (Some d) c =
        c\<lparr>sstore := setRealtimeData now d (sstore c),
          delivered := (if callback then delivered c @ [d] else delivered c)\<rparr>) \<and>
   onmessage now callback None c =
     c\<lparr>sstore := setError (Some (Literal ''Failed to process WebSocket message'')) (sstore c)\<rparr> \<and>
   socketRef (onmessage now callback parsed c) = socketRef c \<and>
   sockets (onmessage now callback parsed c) = sockets c \<and>
   timers (onmessage now callback parsed c) = timers c"
proof -
  have wellformed: "truthy d \<and> truthy (get d ''timestamp'')"
    if "is_string (get d ''timestamp'')" "get d ''timestamp'' \<noteq> JStr []"
    using that nonempty_string_truthy [of "get d ''timestamp''"] by (cases d) simp_all
  have conn: "socketRef (onmessage now callback parsed c) = socketRef c \<and>
      sockets (onmessage now callback parsed c) = sockets c \<and>
      timers (onmessage now callback parsed c) = timers c"
    by (cases parsed) (simp_all add: onmessage_def)
  show ?thesis
    using wellformed conn by (auto simp: onmessage_def setRealtimeData_def)
qed

theorem onmessage_forwards_witness:
  "onmessage 9 True (Some stream_message) initial_stream =
     initial_stream\<lparr>sstore := setRealtimeData 9 stream_message initial_store,
                    delivered := [stream_message]\<rparr> \<and>
   onmessage 9 True (Some (JObj [(''timestamp'', JStr [])])) initial_stream = initial_stream \<and>
   onmessage 9 True (Some (JObj [(''timestamp'', JStr ''t''), (''error'', JStr ''upstream'')]))
     initial_stream = initial_stream"
  using onmessage_forwards [of stream_message 9 True initial_stream]
    onmessage_forwards [of "JObj [(''timestamp'', JStr [])]" 9 True initial_stream]
    onmessage_forwards [of "JObj [(''timestamp'', JStr ''t''), (''error'', JStr ''upstream'')]"
      9 True initial_stream]
  by (simp add: stream_message_def initial_stream_def)

subsection \<open>What is retried\<close>

lemma query_params_r180 [simp]: "query_params r180 = [(''days'', JNum 180)]"
  by (simp add: query_params_def r180_def default_null_def)

lemma getRiskHistory_unfold:
  "getRiskHistory net r w =
     (case fetchWithRetry net ''/risk/history'' (query_params r) 3 (on_store (setLoading True) w) of
        (res, w2) \<Rightarrow>
          ((case res of Inl e \<Rightarrow> Inl e | Inr response \<Rightarrow> shape_response (runtime w2) response),
           on_store (setLoading False) w2))"
  by (simp add: getRiskHistory_def)


text \<open>
  Claim C3, as stated, fails: \<open>validateApiResponse\<close> is called inside the \<open>try\<close> block
  of the attempt, so a body that carries an \<open>error\<close> field is caught like a transport
  failure. With a network that answers such a body every time, three requests go out.
\<close>

theorem error_body_is_retried:
  "events_since loaded_world (snd (getRiskHistory erring r180 loaded_world)) =
     [Request ''/risk/history'' [(''days'', JNum 180)], Sleep 1000,
      Request ''/risk/history'' [(''days'', JNum 180)], Sleep 2000,
      Request ''/risk/history'' [(''days'', JNum 180)]] \<and>
   fst (getRiskHistory erring r180 loaded_world) = Inl (ApiError (JStr ''upstream failed''))"
proof -
  have "attempt_result (erring n) = Inl (ApiError (JStr ''upstream failed''))" for n
    by (simp add: erring_def attempt_result_def validateApiResponse_def)
  then show ?thesis
    by (simp add: getRiskHistory_unfold three_none)
qed

lemma attempt_result_body:
  "net k = Responds True status (Inr d) \<Longrightarrow>
   attempt_result (net k) = (case validateApiResponse d of Inl e \<Rightarrow> Inl e | Inr b \<Rightarrow> Inr d)"
  by (simp add: attempt_result_def)

lemma unrecognized_shape:
  "\<not> isArray (get d ''data'') \<Longrightarrow> \<not> isArray d \<Longrightarrow> shape_response eng d = Inl InvalidRiskDataFormat"
  by (simp add: shape_response_def)

lemma below_three: "k < (3::nat) \<Longrightarrow> k = 0 \<or> k = 1 \<or> k = 2"
  by arith

lemma shape_failure_terminal:
  assumes k: "k < 3"
    and before: "\<forall>j<k. \<exists>e. attempt_result (net j) = Inl e"
    and body: "net k = Responds True status (Inr d)"
    and valid: "validateApiResponse d = Inr True"
    and shape: "\<not> isArray (get d ''data'')" "\<not> isArray d"
  shows "fst (getRiskHistory net r w) = Inl InvalidRiskDataFormat \<and>
         length (requests (events_since w (snd (getRiskHistory net r w)))) = k + 1"
proof -
  have ok: "attempt_result (net k) = Inr d"
    using body valid by (simp add: attempt_result_body)
  note sh = unrecognized_shape [OF shape]
  from k consider "k = 0" | "k = 1" | "k = 2" using below_three by blast
  then show ?thesis
  proof cases
    case 1
    with ok sh show ?thesis
      by (simp add: getRiskHistory_unfold three_first requests_def)
  next
    case 2
    with before obtain e0 where "attempt_result (net 0) = Inl e0" by auto
    with 2 ok sh show ?thesis
      by (simp add: getRiskHistory_unfold three_second requests_def)
  next
    case 3
    with before obtain e0 e1 where "attempt_result (net 0) = Inl e0" "attempt_result (net 1) = Inl e1"
      by (metis one_less_numeral_iff semiring_norm(76) zero_less_numeral)
    with 3 ok sh show ?thesis
      by (simp add: getRiskHistory_unfold three_third requests_def)
  qed
qed

lemma validation_failure_retried:
  assumes k: "k < 2"
    and before: "\<forall>j<k. \<exists>e. attempt_result (net j) = Inl e"
    and body: "net k = Responds True status (Inr d)"
    and invalid: "validateApiResponse d = Inl e"
  shows "Sleep (2 ^ k * 1000) \<in> set (events_since w (snd (getRiskHistory net r w))) \<and>
         k + 2 \<le> length (requests (events_since w (snd (getRiskHistory net r w))))"
proof -
  have bad: "attempt_result (net k) = Inl e"
    using body invalid by (simp add: attempt_result_body)
  from k consider "k = 0" | "k = 1" by arith
  then show ?thesis
  proof cases
    case 1
    show ?thesis
    proof (cases "attempt_result (net 1)")
      case (Inr d1)
      with 1 bad show ?thesis
        by (simp add: getRiskHistory_unfold three_second requests_def)
    next
      case e1: (Inl e1)
      show ?thesis
      proof (cases "attempt_result (net 2)")
        case (Inr d2)
        with 1 bad e1 show ?thesis
          by (simp add: getRiskHistory_unfold three_third requests_def)
      next
        case (Inl e2)
        with 1 bad e1 show ?thesis
          by (simp add: getRiskHistory_unfold three_none requests_def)
      qed
    qed
  next
    case 2
    with before obtain e0 where e0: "attempt_result (net 0) = Inl e0" by auto
    show ?thesis
    proof (cases "attempt_result (net 2)")
      case (Inr d2)
      with 2 bad e0 show ?thesis
        by (simp add: getRiskHistory_unfold three_third requests_def)
    next
      case (Inl e2)
      with 2 bad e0 show ?thesis
        by (simp add: getRiskHistory_unfold three_none requests_def)
    qed
  qed
qed


text \<open>
  Claim C3, amended. When attempt \<open>k\<close> is the first that does not fail and its body
  passes \<open>validateApiResponse\<close> but has no known shape (no array in \<open>data\<close>, not an
  array), the fetch ends with \<open>'Invalid risk data format received'\<close> after \<open>k + 1\<close>
  requests: no further attempt is made. When the body of attempt \<open>k\<close>, \<open>k < 2\<close>, fails
  \<open>validateApiResponse\<close> (not an object, or a truthy \<open>error\<close> field), the client waits
  \<open>2 ^ k\<close> seconds and makes another attempt, as after a transport failure.
\<close>

theorem only_shape_failure_is_terminal:
  "(k < 3 \<and> (\<forall>j<k. \<exists>e. attempt_result (net j) = Inl e) \<and>
    net k = Responds True status (Inr d) \<and> validateApiResponse d = Inr True \<and>
    \<not> isArray (get d ''data'') \<and> \<not> isArray d \<longrightarrow>
      fst (getRiskHistory net r w) = Inl InvalidRiskDataFormat \<and>
      length (requests (events_since w (snd (getRiskHistory net r w)))) = k + 1) \<and>
   (k < 2 \<and> (\<forall>j<k. \<exists>e. attempt_result (net j) = Inl e) \<and>
    net k = Responds True status (Inr d) \<and> validateApiResponse d = Inl e \<longrightarrow>
      Sleep (2 ^ k * 1000) \<in> set (events_since w (snd (getRiskHistory net r w))) \<and>
      k + 2 \<le> length (requests (events_since w (snd (getRiskHistory net r w)))))"
  using shape_failure_terminal [of k net status d r w]
    validation_failure_retried [of k net status d e w r]
  by blast


theorem only_shape_failure_is_terminal_witness:
  "fst (getRiskHistory shapeless r180 loaded_world) = Inl InvalidRiskDataFormat \<and>
   length (requests (events_since loaded_world (snd (getRiskHistory shapeless r180 loaded_world)))) = 2 \<and>
   Sleep 1000 \<in> set (events_since loaded_world (snd (getRiskHistory erring r180 loaded_world))) \<and>
   2 \<le> length (requests (events_since loaded_world (snd (getRiskHistory erring r180 loaded_world))))"
proof -
  have a: "\<forall>j<1. \<exists>e. attempt_result (shapeless j) = Inl e"
    by (simp add: shapeless_def attempt_result_def)
  have b: "shapeless 1 = Responds True 200 (Inr (JObj [(''status'', JStr ''ok'')]))"
    by (simp add: shapeless_def)
  have c: "validateApiResponse (JObj [(''status'', JStr ''ok'')]) = Inr True"
    by (simp add: validateApiResponse_def)
  have d: "erring 0 = Responds True 200 (Inr (JObj [(''error'', JStr ''upstream failed'')]))"
    by (simp add: erring_def)
  have e: "validateApiResponse (JObj [(''error'', JStr ''upstream failed'')])
             = Inl (ApiError (JStr ''upstream failed''))"
    by (simp add: validateApiResponse_def)
  show ?thesis
    using a b c d e
      only_shape_failure_is_terminal [where k = 1 and net = shapeless and status = 200
        and d = "JObj [(''status'', JStr ''ok'')]" and r = r180 and w = loaded_world]
      only_shape_failure_is_terminal [where k = 0 and net = erring and status = 200
        and d = "JObj [(''error'', JStr ''upstream failed'')]" and r = r180 and w = loaded_world
        and e = "ApiError (JStr ''upstream failed'')"]
    by simp
qed

subsection \<open>The range argument\<close>

lemma steady_result: "attempt_result (steady n) = Inr (JObj [(''data'', JArr [])])"
  by (simp add: steady_def attempt_result_def validateApiResponse_def)


text \<open>
  Claim C4, as stated, fails: \<open>getRiskHistory\<close> does not call
  \<open>validateDateRangeParams\<close>, and nothing else checks the range. The range
  \<open>{days: -5}\<close>, which the validator rejects, is sent to the network as \<open>days=-5\<close>, and
  the fetch succeeds.
\<close>

theorem negative_days_are_requested:
  "validateDateRangeParams (\<lambda>s. None) negative_days
     = Inl (InvalidRange ''Days parameter must be a positive number'') \<and>
   events_since loaded_world (snd (getRiskHistory steady negative_days loaded_world))
     = [Request ''/risk/history'' [(''days'', JNum (- 5))]] \<and>
   fst (getRiskHistory steady negative_days loaded_world) = Inr (JObj [(''data'', JArr [])])"
  by (simp add: validateDateRangeParams_def negative_days_def
      getRiskHistory_unfold three_first steady_result query_params_def default_null_def
      shape_response_def)

lemma first_event_is_request:
  "take 1 (events_since w (snd (fetchWithRetry net path params 3 w))) = [Request path params]"
  using three_cases [of w net path params] by auto

lemma getRiskHistory_first_event:
  "take 1 (events_since w (snd (getRiskHistory net r w)))
     = [Request ''/risk/history'' (query_params r)]"
proof -
  have "events_since w (snd (getRiskHistory net r w))
      = events_since (on_store (setLoading True) w)
          (snd (fetchWithRetry net ''/risk/history'' (query_params r) 3 (on_store (setLoading True) w)))"
    by (simp add: getRiskHistory_unfold events_since_def split: prod.splits)
  then show ?thesis by (simp only: first_event_is_request)
qed

lemma attempt_result_not_range: "attempt_result out \<noteq> Inl (InvalidRange m)"
  by (auto simp: attempt_result_def validateApiResponse_def split: outcome.splits sum.splits if_splits)

lemma generateSummary_not_range: "generateSummaryFromArray eng d \<noteq> Inl (InvalidRange m)"
  by (auto simp: generateSummaryFromArray_def Let_def split: list.splits if_splits)

lemma shape_response_not_range: "shape_response eng d \<noteq> Inl (InvalidRange m)"
  using generateSummary_not_range [of eng d m]
  by (auto simp: shape_response_def split: sum.splits if_splits)

lemma fetchWithRetry_not_range:
  "fst (fetchWithRetry net path params 3 w) \<noteq> Inl (InvalidRange m)"
proof (cases "attempt_result (net 0)")
  case (Inr d)
  then show ?thesis by (simp add: three_first)
next
  case e0: (Inl e0)
  show ?thesis
  proof (cases "attempt_result (net 1)")
    case (Inr d)
    with e0 show ?thesis by (simp add: three_second)
  next
    case e1: (Inl e1)
    show ?thesis
    proof (cases "attempt_result (net 2)")
      case (Inr d)
      with e0 e1 show ?thesis by (simp add: three_third)
    next
      case (Inl e2)
      with e0 e1 attempt_result_not_range [of "net 2" m] show ?thesis
        by (auto simp: three_none)
    qed
  qed
qed

lemma getRiskHistory_not_range: "fst (getRiskHistory net r w) \<noteq> Inl (InvalidRange m)"
  using fetchWithRetry_not_range [of net "''/risk/history''" "query_params r" "on_store (setLoading True) w" m]
    shape_response_not_range [of _ _ m]
  by (auto simp: getRiskHistory_unfold split: prod.splits sum.splits)

lemma matches_date_nonempty: "matches_date s \<Longrightarrow> s \<noteq> []"
  by (cases s) simp_all

lemma date_after_strings:
  "date_after dv a b \<Longrightarrow> (\<exists>x y. a = JStr x \<and> b = JStr y)"
  by (auto simp: date_after_def split: jsval.splits)

lemma validateDateRangeParams_accepts:
  "(validateDateRangeParams dv r = Inr True) =
     ((days r = JUndefined \<or> (\<exists>x. days r = JNum x \<and> 0 < x)) \<and>
      (startDate r = JUndefined \<or> (\<exists>s. startDate r = JStr s \<and> matches_date s)) \<and>
      (endDate r = JUndefined \<or> (\<exists>s. endDate r = JStr s \<and> matches_date s)) \<and>
      \<not> date_after dv (startDate r) (endDate r))"
proof -
  have d: "(days r \<noteq> JUndefined \<and>
            (\<not> isValidNumber (days r) \<or> (case days r of JNum x \<Rightarrow> x \<le> 0 | _ \<Rightarrow> False)))
           = (\<not> (days r = JUndefined \<or> (\<exists>x. days r = JNum x \<and> 0 < x)))"
  proof (cases "days r")
    case (JNumber n)
    then show ?thesis by (cases n) auto
  qed auto
  have s: "(v \<noteq> JUndefined \<and> (case v of JStr s \<Rightarrow> \<not> matches_date s | _ \<Rightarrow> True))
           = (\<not> (v = JUndefined \<or> (\<exists>s. v = JStr s \<and> matches_date s)))" for v
    by (cases v) auto
  have t: "truthy (JStr s)" if "matches_date s" for s
    using that matches_date_nonempty by simp
  show ?thesis
    unfolding validateDateRangeParams_def d s [of "startDate r"] s [of "endDate r"]
    using t by (auto dest: date_after_strings)
qed

text \<open>
  Claim C4, amended. For every range, whether it meets the constraints or not,
  \<open>getRiskHistory\<close> issues the request, with each of \<open>days\<close>, \<open>startDate\<close> and
  \<open>endDate\<close> that is truthy among its parameters, and never fails with an invalid-range
  error. When none of the three is supplied (or truthy), the request is issued with
  \<open>days = 180\<close>. The constraints are those of \<open>validateDateRangeParams\<close>, a function the
  fetch does not call: it accepts exactly the ranges whose \<open>days\<close> is absent or a
  positive number, whose dates are absent or strings in \<open>YYYY-MM-DD\<close> form, and whose
  \<open>startDate\<close> is not after the \<open>endDate\<close>.
\<close>

theorem fetch_does_not_check_range:
  "take 1 (events_since w (snd (getRiskHistory net r w)))
     = [Request ''/risk/history'' (query_params r)] \<and>
   fst (getRiskHistory net r w) \<noteq> Inl (InvalidRange m) \<and>
   (truthy (days r) \<longrightarrow> (''days'', days r) \<in> set (query_params r)) \<and>
   (truthy (startDate r) \<longrightarrow> (''start_date'', startDate r) \<in> set (query_params r)) \<and>
   (truthy (endDate r) \<longrightarrow> (''end_date'', endDate r) \<in> set (query_params r)) \<and>
   (\<not> truthy (days r) \<and> \<not> truthy (startDate r) \<and> \<not> truthy (endDate r) \<longrightarrow>
      query_params r = [(''days'', JNum 180)]) \<and>
   ((validateDateRangeParams dv r = Inr True) =
     ((days r = JUndefined \<or> (\<exists>x. days r = JNum x \<and> 0 < x)) \<and>
      (startDate r = JUndefined \<or> (\<exists>s. startDate r = JStr s \<and> matches_date s)) \<and>
      (endDate r = JUndefined \<or> (\<exists>s. endDate r = JStr s \<and> matches_date s)) \<and>
      \<not> date_after dv (startDate r) (endDate r)))"
proof -
  have p: "(truthy (days r) \<longrightarrow> (''days'', days r) \<in> set (query_params r)) \<and>
      (truthy (startDate r) \<longrightarrow> (''start_date'', startDate r) \<in> set (query_params r)) \<and>
      (truthy (endDate r) \<longrightarrow> (''end_date'', endDate r) \<in> set (query_params r)) \<and>
      (\<not> truthy (days r) \<and> \<not> truthy (startDate r) \<and> \<not> truthy (endDate r) \<longrightarrow>
         query_params r = [(''days'', JNum 180)])"
    by (auto simp: query_params_def default_null_def Let_def)
  show ?thesis
    using p getRiskHistory_first_event [of w net r] getRiskHistory_not_range [of net r w m]
      validateDateRangeParams_accepts [of dv r]
    by blast
qed

theorem fetch_does_not_check_range_witness:
  "query_params no_range = [(''days'', JNum 180)] \<and>
   take 1 (events_since loaded_world (snd (getRiskHistory steady negative_days loaded_world)))
     = [Request ''/risk/history'' [(''days'', JNum (- 5))]] \<and>
   validateDateRangeParams (\<lambda>s. None) negative_days \<noteq> Inr True \<and>
   (''start_date'', JStr ''2024-03-01'') \<in> set (query_params inverted) \<and>
   (''end_date'', JStr ''2024-01-01'') \<in> set (query_params inverted)"
  using fetch_does_not_check_range [where r = no_range]
    fetch_does_not_check_range [where r = negative_days and w = loaded_world and net = steady
      and dv = "\<lambda>s. None"]
    fetch_does_not_check_range [where r = inverted]
  by (simp add: no_range_def negative_days_def inverted_def query_params_def default_null_def)

subsection \<open>The summary of a legacy array\<close>






























text \<open>
  A score given as a text of digits is kept, and the sum concatenates: for the scores
  \<open>"1"\<close> and \<open>"2"\<close> the sum is \<open>"012"\<close> and the mean 6.
\<close>

lemma summary_concatenates_strings:
  "(case generateSummaryFromArray plain_engine
           (JArr [JObj [(''systemic_risk'', JStr ''1'')], JObj [(''systemic_risk'', JStr ''2'')]]) of
      Inr s \<Rightarrow> get s ''period_mean'' = JNum 6 \<and> get s ''period_min'' = JNum 1 \<and>
               get s ''period_max'' = JNum 2
    | Inl e \<Rightarrow> False)"
  by (simp add: generateSummaryFromArray_def or_else_def plain_engine_def js_plus_def
      math_min_def math_max_def number_min_def number_max_def plain_read_def digit_def
      digit_value_def Let_def)

subsection \<open>Batches and the validity of their items\<close>

lemma first_success:
  assumes k: "k < 3"
    and before: "\<forall>j<k. \<exists>e. attempt_result (net j) = Inl e"
    and ok: "attempt_result (net k) = Inr d"
  shows "fst (fetchWithRetry net path params 3 w) = Inr d \<and>
         st (snd (fetchWithRetry net path params 3 w)) = st w \<and>
         runtime (snd (fetchWithRetry net path params 3 w)) = runtime w"
proof -
  from k consider "k = 0" | "k = 1" | "k = 2" using below_three by blast
  then show ?thesis
  proof cases
    case 1
    with ok show ?thesis by (simp add: three_first)
  next
    case 2
    with before obtain e0 where "attempt_result (net 0) = Inl e0" by auto
    with 2 ok show ?thesis by (simp add: three_second)
  next
    case 3
    with before obtain e0 e1 where "attempt_result (net 0) = Inl e0" "attempt_result (net 1) = Inl e1"
      by (metis one_less_numeral_iff semiring_norm(76) zero_less_numeral)
    with 3 ok show ?thesis by (simp add: three_third)
  qed
qed

lemma getRiskHistory_first_success:
  assumes "k < 3" "\<forall>j<k. \<exists>e. attempt_result (net j) = Inl e" "attempt_result (net k) = Inr d"
  shows "fst (getRiskHistory net r w) = shape_response (runtime w) d \<and>
         st (snd (getRiskHistory net r w)) = setLoading False (setLoading True (st w))"
  using first_success [OF assms, of "''/risk/history''" "query_params r" "on_store (setLoading True) w"]
  by (auto simp: getRiskHistory_unfold split: prod.splits)

lemma fetchRiskHistory_stores:
  assumes "k < 3" "\<forall>j<k. \<exists>e. attempt_result (net j) = Inl e" "attempt_result (net k) = Inr d"
    and "shape_response (runtime w) d = Inr response" "get response ''data'' = JArr items"
  shows "riskHistory (st (fetchRiskHistory net now False rangeInput w)) = JArr items \<and>
         error (st (fetchRiskHistory net now False rangeInput w)) = None"
proof -
  have t: "truthy response" using assms(5) by (cases response) simp_all
  have s: "riskHistory (setRiskData now response s) = JArr items" for s
    using assms(5) t by (simp add: setRiskData_def)
  show ?thesis
    using getRiskHistory_first_success [OF assms(1-3), of "normalizeRange rangeInput"
        "on_store (setLoading True) w"] assms(4,5) t s
    by (auto simp: fetchRiskHistory_def Let_def split: prod.splits)
qed

lemma falsy_convertible: "\<not> truthy v \<Longrightarrow> convertible v"
  by (cases v) simp_all

lemma operand_convertible: "convertible v \<Longrightarrow> convertible (or_else v (JNum 0))"
  by (simp add: or_else_def)

lemma summary_defined:
  assumes "\<forall>d\<in>set items. \<not> nullish d \<and> convertible (get d ''systemic_risk'')"
  shows "\<exists>s. generateSummaryFromArray eng (JArr items) = Inr s"
proof -
  have n: "\<not> list_ex nullish items"
    using assms by (auto simp: list_ex_iff)
  have c: "list_all convertible (map (\<lambda>x. or_else (get x ''systemic_risk'') (JNum 0)) items)"
    using assms by (auto simp: list_all_iff operand_convertible)
  show ?thesis
    unfolding generateSummaryFromArray_def using n c by (simp add: Let_def)
qed

lemma enhanced_shape:
  "get body ''data'' = JArr items \<Longrightarrow> shape_response eng body = Inr body"
  by (cases body) (simp_all add: shape_response_def)

lemma enhanced_valid:
  "get body ''data'' = JArr items \<Longrightarrow> \<not> truthy (get body ''error'') \<Longrightarrow>
   validateApiResponse body = Inr True"
  by (cases body) (simp_all add: validateApiResponse_def)

lemma legacy_valid: "validateApiResponse (JArr items) = Inr True"
  by (simp add: validateApiResponse_def)

lemma enhanced_batch_kept:
  assumes "k < 3" "\<forall>j<k. \<exists>e. attempt_result (net j) = Inl e"
    and body: "net k = Responds True status (Inr body)"
    and shape: "get body ''data'' = JArr items" "\<not> truthy (get body ''error'')"
  shows "riskHistory (st (fetchRiskHistory net now False rangeInput w)) = JArr items \<and>
         error (st (fetchRiskHistory net now False rangeInput w)) = None"
proof -
  have ok: "attempt_result (net k) = Inr body"
    using body shape by (simp add: attempt_result_body enhanced_valid)
  have sh: "shape_response (runtime w) body = Inr body"
    using shape by (simp add: enhanced_shape)
  show ?thesis
    by (rule fetchRiskHistory_stores [OF assms(1,2) ok sh shape(1)])
qed

lemma legacy_batch_kept:
  assumes "k < 3" "\<forall>j<k. \<exists>e. attempt_result (net j) = Inl e"
    and body: "net k = Responds True status (Inr (JArr items))"
    and items: "\<forall>d\<in>set items. \<not> nullish d \<and> convertible (get d ''systemic_risk'')"
  shows "riskHistory (st (fetchRiskHistory net now False rangeInput w)) = JArr items \<and>
         error (st (fetchRiskHistory net now False rangeInput w)) = None"
proof -
  have ok: "attempt_result (net k) = Inr (JArr items)"
    using body by (simp add: attempt_result_body legacy_valid)
  from items obtain s where "generateSummaryFromArray (runtime w) (JArr items) = Inr s"
    using summary_defined by blast
  then have sh: "shape_response (runtime w) (JArr items)
      = Inr (JObj [(''data'', JArr items), (''summary'', s)])"
    by (simp add: shape_response_def)
  have g: "get (JObj [(''data'', JArr items), (''summary'', s)]) ''data'' = JArr items"
    by simp
  show ?thesis
    by (rule fetchRiskHistory_stores [OF assms(1,2) ok sh g])
qed

text \<open>
  Claim C9, as stated, fails where it lets the fetch fail: the claim puts a failure at
  the batches of which no item validates, and the fetch path never asks.
  \<open>isValidRiskData\<close> is imported by the service and not called. A legacy array whose
  only item has a \<open>risk_level\<close> outside the accepted values is fetched without error and
  becomes the stored history.
\<close>

theorem batch_without_valid_item_is_stored:
  "\<not> list_ex valid_item [off_scale] \<and>
   \<not> isValidRiskData (JArr [off_scale]) \<and>
   riskHistory (st (fetchRiskHistory off_scale_batch 7 False (JNum 180) loaded_world))
     = JArr [off_scale] \<and>
   error (st (fetchRiskHistory off_scale_batch 7 False (JNum 180) loaded_world)) = None"
proof -
  have v: "\<not> valid_item off_scale"
    by (simp add: valid_item_def off_scale_def or_else_def)
  have i: "\<not> isValidRiskData (JArr [off_scale])"
    using v by (simp add: isValidRiskData_def)
  have b: "off_scale_batch 0 = Responds True 200 (Inr (JArr [off_scale]))"
    by (simp add: off_scale_batch_def)
  have c: "\<forall>d\<in>set [off_scale]. \<not> nullish d \<and> convertible (get d ''systemic_risk'')"
    by (simp add: off_scale_def)
  show ?thesis
    using v i legacy_batch_kept [of 0 off_scale_batch 200 "[off_scale]" 7 "JNum 180" loaded_world, OF _ _ b c]
    by simp
qed

text \<open>
  Claim C9, amended. The validity of the items plays no part in a fetch. When the first
  attempt that does not fail answers an enhanced batch (an array in \<open>data\<close> and no
  truthy \<open>error\<close>), or a legacy array of which no item is \<open>null\<close> and no
  \<open>systemic_risk\<close> fails to convert to a primitive (only an object with a \<open>toString\<close>
  property of its own does), the fetch succeeds and the stored history is the whole
  batch, valid and invalid items alike, also when no item validates or has a numeric
  score.
\<close>

theorem batch_kept_whole:
  "(k < 3 \<and> (\<forall>j<k. \<exists>e. attempt_result (net j) = Inl e) \<and>
    net k = Responds True status (Inr body) \<and>
    get body ''data'' = JArr items \<and> \<not> truthy (get body ''error'') \<longrightarrow>
      riskHistory (st (fetchRiskHistory net now False rangeInput w)) = JArr items \<and>
      error (st (fetchRiskHistory net now False rangeInput w)) = None) \<and>
   (k < 3 \<and> (\<forall>j<k. \<exists>e. attempt_result (net j) = Inl e) \<and>
    net k = Responds True status (Inr (JArr items)) \<and>
    (\<forall>d\<in>set items. \<not> nullish d \<and> convertible (get d ''systemic_risk'')) \<longrightarrow>
      riskHistory (st (fetchRiskHistory net now False rangeInput w)) = JArr items \<and>
      error (st (fetchRiskHistory net now False rangeInput w)) = None)"
  using enhanced_batch_kept [of k net status body items now rangeInput w]
    legacy_batch_kept [of k net status items now rangeInput w]
  by blast

theorem batch_kept_whole_witness:
  "riskHistory (st (fetchRiskHistory off_scale_enhanced 7 False (JNum 180) loaded_world))
     = JArr [off_scale, JNull] \<and>
   error (st (fetchRiskHistory off_scale_enhanced 7 False (JNum 180) loaded_world)) = None \<and>
   riskHistory (st (fetchRiskHistory unscored_batch 7 False (JNum 180) loaded_world))
     = JArr [unscored, off_scale] \<and>
   error (st (fetchRiskHistory unscored_batch 7 False (JNum 180) loaded_world)) = None \<and>
   \<not> valid_item unscored \<and> \<not> valid_item off_scale \<and> \<not> valid_item JNull"
proof -
  have a: "off_scale_enhanced 0 = Responds True 200 (Inr (JObj [(''data'', JArr [off_scale, JNull])]))"
    by (simp add: off_scale_enhanced_def)
  have b: "unscored_batch 0 = Responds True 200 (Inr (JArr [unscored, off_scale]))"
    by (simp add: unscored_batch_def)
  have c: "\<forall>d\<in>set [unscored, off_scale]. \<not> nullish d \<and> convertible (get d ''systemic_risk'')"
    by (simp add: off_scale_def unscored_def)
  have v: "\<not> valid_item unscored \<and> \<not> valid_item off_scale \<and> \<not> valid_item JNull"
    by (simp add: valid_item_def off_scale_def unscored_def or_else_def)
  show ?thesis
    using a b c v
      batch_kept_whole [where k = 0 and net = off_scale_enhanced and status = 200
        and body = "JObj [(''data'', JArr [off_scale, JNull])]" and items = "[off_scale, JNull]"
        and now = 7 and rangeInput = "JNum 180" and w = loaded_world]
      batch_kept_whole [where k = 0 and net = unscored_batch and status = 200
        and items = "[unscored, off_scale]" and now = 7 and rangeInput = "JNum 180"
        and w = loaded_world]
    by simp
qed

end
